theory Spec2Isabelle
  imports Complex_Main "HOL-Library.Word"
begin

section \<open>The Live2D Cubism avatar component\<close>

text \<open>
  A shallow embedding of \<^verbatim>\<open>Live2DCubismAvatarComponent.h\<close> and
  \<^verbatim>\<open>Live2DCubismAvatarComponent.cpp\<close>. The class has three private pointer members
  and five methods besides its constructor; every method is embedded below, statement by
  statement, in the order of the source.
\<close>

subsection \<open>Data\<close>

text \<open>
  \<^verbatim>\<open>FString\<close> and \<^verbatim>\<open>FName\<close> are the engine's string types; no method looks inside a
  parameter name, a path is only handed to the file helpers and printed. \<^verbatim>\<open>float\<close> values
  are never computed with: the only ones produced are the literals \<^verbatim>\<open>0.5f\<close> and
  \<^verbatim>\<open>0.0f\<close>, both exact in binary32, so a float is taken as the real number it denotes.
\<close>

type_synonym FString = string
type_synonym FName = string
type_synonym float = real
type_synonym uint8 = "8 word"

text \<open>
  A pointer to an engine object is \<open>None\<close> for \<^verbatim>\<open>nullptr\<close> and \<open>Some a\<close> for the
  object allocated as number \<open>a\<close>.
\<close>

type_synonym object_ptr = "nat option"

text \<open>The verbosity levels of \<^verbatim>\<open>UE_LOG\<close>, and one line written to \<^verbatim>\<open>LogTemp\<close>.\<close>

datatype ELogVerbosity = Fatal | Error | Warning | Display | Log | Verbose | VeryVerbose

type_synonym log_line = "ELogVerbosity \<times> string"

text \<open>
  The tick group passed to \<^verbatim>\<open>TickComponent\<close> (an engine enumeration; the body never
  reads it).
\<close>

datatype ELevelTick =
  LEVELTICK_TimeOnly | LEVELTICK_ViewportsOnly | LEVELTICK_All | LEVELTICK_PauseTick

text \<open>
  The state the methods act on: the members of the class (lines 37 to 50 of the header, and
  \<^verbatim>\<open>PrimaryComponentTick.bCanEverTick\<close>, the one inherited member the file writes), the
  lines the component has written to \<^verbatim>\<open>LogTemp\<close>, and the number the engine gives to
  the next object made by \<^verbatim>\<open>NewObject\<close>.
\<close>

record component =
  bCanEverTick :: bool
  Live2DModel :: object_ptr
  RenderTarget :: object_ptr
  DynamicMaterial :: object_ptr
  LogTemp :: "log_line list"
  NextObject :: nat

text \<open>
  The two file helpers of the engine that \<^verbatim>\<open>LoadLive2DModel\<close> calls are not part of the
  repository; they are parameters of the model. \<^verbatim>\<open>FFileHelper::LoadFileToArray\<close> returns
  the bytes read, or \<open>None\<close> where the C++ returns false.
\<close>

record platform =
  FileExists :: "FString \<Rightarrow> bool"
  LoadFileToArray :: "FString \<Rightarrow> uint8 list option"

subsection \<open>Engine services\<close>

definition UE_LOG :: "component \<Rightarrow> ELogVerbosity \<Rightarrow> string \<Rightarrow> component" where
  "UE_LOG c verbosity msg = c\<lparr>LogTemp := LogTemp c @ [(verbosity, msg)]\<rparr>"

definition NewObject :: "component \<Rightarrow> nat \<times> component" where
  "NewObject c = (NextObject c, c\<lparr>NextObject := Suc (NextObject c)\<rparr>)"

subsection \<open>The methods\<close>

text \<open>
  The constructor (lines 5 to 8). The engine allocates objects in zeroed memory, so the three
  pointer members, which the constructor does not assign, start as \<^verbatim>\<open>nullptr\<close>.
\<close>

definition ULive2DCubismAvatarComponent :: component where
  "ULive2DCubismAvatarComponent =
     \<lparr>bCanEverTick = True, Live2DModel = None, RenderTarget = None, DynamicMaterial = None,
      LogTemp = [], NextObject = 0\<rparr>"

text \<open>
  \<^verbatim>\<open>BeginPlay\<close> (lines 10 to 15) and \<^verbatim>\<open>TickComponent\<close> (lines 17 to 22). The calls
  to the base class are engine code, which cannot reach the private members; the only
  statement of \<^verbatim>\<open>TickComponent\<close> after it is commented out.
\<close>

definition BeginPlay :: "component \<Rightarrow> component" where
  "BeginPlay c = UE_LOG c Log ''Live2D Cubism SDK Initialized (Placeholder)''"

definition TickComponent :: "component \<Rightarrow> float \<Rightarrow> ELevelTick \<Rightarrow> object_ptr \<Rightarrow> component" where
  "TickComponent c DeltaTime TickType ThisTickFunction = c"

text \<open>
  \<^verbatim>\<open>LoadLive2DModel\<close> (lines 24 to 50): two early returns, each after an error line, then
  the placeholder object is made and assigned. \<open>ModelData\<close> is bound and never read, as in
  the source.
\<close>

definition LoadLive2DModel :: "platform \<Rightarrow> component \<Rightarrow> FString \<Rightarrow> component" where
  "LoadLive2DModel P c ModelPath =
     (if \<not> FileExists P ModelPath
      then UE_LOG c Error (''Model file not found: '' @ ModelPath)
      else case LoadFileToArray P ModelPath of
             None \<Rightarrow> UE_LOG c Error (''Failed to load model file: '' @ ModelPath)
           | Some ModelData \<Rightarrow>
               (let c1 = UE_LOG c Log ''Live2D model created from data (Placeholder)'';
                    (obj, c2) = NewObject c1
                in c2\<lparr>Live2DModel := Some obj\<rparr>))"

text \<open>
  \<^verbatim>\<open>SetParameterValue\<close> (lines 52 to 58): the body of the \<^verbatim>\<open>if\<close> holds a comment only.
  \<^verbatim>\<open>GetParameterValue\<close> (lines 60 to 69) is \<^verbatim>\<open>const\<close>: it reads the state and returns
  a float.
\<close>

definition SetParameterValue :: "component \<Rightarrow> FName \<Rightarrow> float \<Rightarrow> component" where
  "SetParameterValue c ParameterName Value = (if Live2DModel c \<noteq> None then c else c)"

definition GetParameterValue :: "component \<Rightarrow> FName \<Rightarrow> float" where
  "GetParameterValue c ParameterName = (if Live2DModel c \<noteq> None then 0.5 else 0.0)"

subsection \<open>Calls as the caller sees them\<close>

text \<open>
  The error kinds named by the specification. Neither exists in the source: the setter
  returns \<^verbatim>\<open>void\<close>, the getter a \<^verbatim>\<open>float\<close>, and no method throws. A call therefore
  always ends in a normal return, which the sum type records as \<open>Inr\<close>.
\<close>

datatype ParameterError = Unknown

definition call_SetParameterValue ::
  "component \<Rightarrow> FName \<Rightarrow> float \<Rightarrow> ParameterError + component" where
  "call_SetParameterValue c ParameterName Value = Inr (SetParameterValue c ParameterName Value)"

definition call_GetParameterValue :: "component \<Rightarrow> FName \<Rightarrow> ParameterError + float" where
  "call_GetParameterValue c ParameterName = Inr (GetParameterValue c ParameterName)"

text \<open>A run of setter calls, in order.\<close>

definition SetParameterValues :: "component \<Rightarrow> (FName \<times> float) list \<Rightarrow> component" where
  "SetParameterValues c calls = foldl (\<lambda>s (n, v). SetParameterValue s n v) c calls"

subsection \<open>Platforms for concrete runs\<close>

text \<open>
  A file system holding one readable file, one holding a file that exists and cannot be
  read, and an empty one.
\<close>

definition single_file :: "FString \<Rightarrow> uint8 list \<Rightarrow> platform" where
  "single_file path bytes =
     \<lparr>FileExists = (\<lambda>q. q = path),
      LoadFileToArray = (\<lambda>q. if q = path then Some bytes else None)\<rparr>"

definition unreadable_file :: "FString \<Rightarrow> platform" where
  "unreadable_file path = \<lparr>FileExists = (\<lambda>q. q = path), LoadFileToArray = (\<lambda>q. None)\<rparr>"

definition no_files :: platform where
  "no_files = \<lparr>FileExists = (\<lambda>q. False), LoadFileToArray = (\<lambda>q. None)\<rparr>"

section \<open>Basic facts\<close>

lemma SetParameterValue_id: "SetParameterValue c n v = c"
  by (simp add: SetParameterValue_def)

lemma SetParameterValues_id: "SetParameterValues c calls = c"
  unfolding SetParameterValues_def
  by (induction calls arbitrary: c) (simp_all add: SetParameterValue_id split: prod.splits)

lemma LoadLive2DModel_missing:
  "\<not> FileExists P p \<Longrightarrow>
   LoadLive2DModel P c p = c\<lparr>LogTemp := LogTemp c @ [(Error, ''Model file not found: '' @ p)]\<rparr>"
  by (simp add: LoadLive2DModel_def UE_LOG_def)

lemma LoadLive2DModel_unreadable:
  "FileExists P p \<Longrightarrow> LoadFileToArray P p = None \<Longrightarrow>
   LoadLive2DModel P c p =
     c\<lparr>LogTemp := LogTemp c @ [(Error, ''Failed to load model file: '' @ p)]\<rparr>"
  by (simp add: LoadLive2DModel_def UE_LOG_def)

lemma LoadLive2DModel_readable:
  "FileExists P p \<Longrightarrow> LoadFileToArray P p = Some bytes \<Longrightarrow>
   LoadLive2DModel P c p =
     c\<lparr>LogTemp := LogTemp c @ [(Log, ''Live2D model created from data (Placeholder)'')],
       NextObject := Suc (NextObject c),
       Live2DModel := Some (NextObject c)\<rparr>"
  by (simp add: LoadLive2DModel_def UE_LOG_def NewObject_def)

lemma single_file_sel [simp]:
  "FileExists (single_file p bytes) q = (q = p)"
  "LoadFileToArray (single_file p bytes) q = (if q = p then Some bytes else None)"
  by (simp_all add: single_file_def)

lemma unreadable_file_sel [simp]:
  "FileExists (unreadable_file p) q = (q = p)"
  "LoadFileToArray (unreadable_file p) q = None"
  by (simp_all add: unreadable_file_def)

lemma no_files_sel [simp]:
  "FileExists no_files q = False"
  "LoadFileToArray no_files q = None"
  by (simp_all add: no_files_def)

section \<open>The claims\<close>

text \<open>
  C1, as the specification states it: a value outside the declared range is stored clamped,
  so that after a load, \<^verbatim>\<open>set("angleX", 45)\<close> followed by \<^verbatim>\<open>get("angleX")\<close> gives 30.
  The component does not do that: on a loaded model the read gives 0.5, and no file
  contents, file system or earlier state makes it give 30.
\<close>

theorem set_angleX_not_clamped:
  "GetParameterValue
     (SetParameterValue
        (LoadLive2DModel (single_file ''angleX.moc3'' [77, 79, 67, 51])
           ULive2DCubismAvatarComponent ''angleX.moc3'')
        ''angleX'' 45)
     ''angleX'' = 0.5 \<and>
   \<not> (\<exists>P c p.
         GetParameterValue (SetParameterValue (LoadLive2DModel P c p) ''angleX'' 45) ''angleX''
           = 30)"
proof -
  have "GetParameterValue (SetParameterValue c ''angleX'' 45) ''angleX'' \<noteq> 30" for c
    by (simp add: SetParameterValue_def GetParameterValue_def)
  then show ?thesis
    by (simp add: LoadLive2DModel_readable SetParameterValue_def GetParameterValue_def)
qed

text \<open>
  C1, amended: \<^verbatim>\<open>SetParameterValue\<close> stores nothing, whether the value lies inside or
  outside any range (the component keeps no parameter table, ranges or defaults). After a
  load of a file that exists and can be read, a set of any name to any value followed by a
  get of that name returns the placeholder 0.5; with no model loaded it returns 0.0.
\<close>

theorem set_then_get_placeholder:
  "(FileExists P p \<and> LoadFileToArray P p = Some bytes \<longrightarrow>
      GetParameterValue (SetParameterValue (LoadLive2DModel P c p) n v) n = 0.5) \<and>
   (Live2DModel c = None \<longrightarrow> GetParameterValue (SetParameterValue c n v) n = 0.0) \<and>
   GetParameterValue (SetParameterValue c n v) n = GetParameterValue c n"
  by (simp add: LoadLive2DModel_readable SetParameterValue_def GetParameterValue_def)

theorem set_then_get_placeholder_witness:
  "GetParameterValue
     (SetParameterValue
        (LoadLive2DModel (single_file ''angleX.moc3'' [77, 79, 67, 51])
           ULive2DCubismAvatarComponent ''angleX.moc3'')
        ''angleX'' 45)
     ''angleX'' = 0.5 \<and>
   GetParameterValue (SetParameterValue ULive2DCubismAvatarComponent ''angleX'' 45) ''angleX''
     = 0.0"
  using set_then_get_placeholder
          [of "single_file ''angleX.moc3'' [77, 79, 67, 51]" "''angleX.moc3''"
              "[77, 79, 67, 51]" ULive2DCubismAvatarComponent "''angleX''" 45]
  by (simp add: ULive2DCubismAvatarComponent_def)

text \<open>
  C2, as the specification states it: for a name the loaded model does not declare, set and
  get fail with \<^verbatim>\<open>ParameterError::Unknown\<close>. The component declares no names at all, and
  on a loaded model neither call fails for \<^verbatim>\<open>missingParam\<close>: the getter returns 0.5.
\<close>

theorem missingParam_calls_return:
  "call_SetParameterValue
     (LoadLive2DModel (single_file ''model.moc3'' [77, 79, 67, 51])
        ULive2DCubismAvatarComponent ''model.moc3'')
     ''missingParam'' 1 \<noteq> Inl Unknown \<and>
   call_GetParameterValue
     (LoadLive2DModel (single_file ''model.moc3'' [77, 79, 67, 51])
        ULive2DCubismAvatarComponent ''model.moc3'')
     ''missingParam'' = Inr 0.5"
  by (simp add: call_SetParameterValue_def call_GetParameterValue_def
        LoadLive2DModel_readable GetParameterValue_def)

text \<open>
  C2, amended: for every parameter name (the component declares none), set and get return
  normally and never report an error; get returns 0.5 when a model is loaded and 0.0
  otherwise; both leave the state unchanged.
\<close>

theorem parameter_calls_never_fail:
  "call_SetParameterValue c n v = Inr c \<and>
   call_GetParameterValue c n = Inr (if Live2DModel c \<noteq> None then 0.5 else 0.0)"
  by (simp add: call_SetParameterValue_def call_GetParameterValue_def
        SetParameterValue_def GetParameterValue_def)

text \<open>
  C3, as the specification states it: an input without the magic header makes load fail with
  \<^verbatim>\<open>BadMagic\<close> and leaves the controller unloaded. The component never looks at the
  bytes: an empty file, and a file of four zero bytes, are both loaded, a model object is
  installed, and the log holds the success line and no error.
\<close>

theorem headerless_file_is_loaded:
  "Live2DModel
     (LoadLive2DModel (single_file ''model.moc3'' []) ULive2DCubismAvatarComponent
        ''model.moc3'') = Some 0 \<and>
   LogTemp
     (LoadLive2DModel (single_file ''model.moc3'' []) ULive2DCubismAvatarComponent
        ''model.moc3'') = [(Log, ''Live2D model created from data (Placeholder)'')] \<and>
   Live2DModel
     (LoadLive2DModel (single_file ''model.moc3'' [0, 0, 0, 0]) ULive2DCubismAvatarComponent
        ''model.moc3'') = Some 0"
  by (simp add: LoadLive2DModel_readable ULive2DCubismAvatarComponent_def)

text \<open>
  C3, amended: load checks no header. Whenever the file exists and can be read, whatever
  its bytes, load installs a model object and logs the success line. Starting with no
  model, the component is still without one after load exactly when the file does not
  exist or cannot be read, and what load then reports is an error line in the log, not a
  \<^verbatim>\<open>ParseError\<close>.
\<close>

theorem load_checks_no_header:
  "(FileExists P p \<and> LoadFileToArray P p = Some bytes \<longrightarrow>
      Live2DModel (LoadLive2DModel P c p) = Some (NextObject c) \<and>
      LogTemp (LoadLive2DModel P c p) =
        LogTemp c @ [(Log, ''Live2D model created from data (Placeholder)'')]) \<and>
   (Live2DModel c = None \<longrightarrow>
      (Live2DModel (LoadLive2DModel P c p) = None) =
        (\<not> FileExists P p \<or> LoadFileToArray P p = None)) \<and>
   (\<not> FileExists P p \<or> LoadFileToArray P p = None \<longrightarrow>
      (\<exists>msg. LogTemp (LoadLive2DModel P c p) = LogTemp c @ [(Error, msg)]))"
proof -
  have ok: "Live2DModel (LoadLive2DModel P c p) = Some (NextObject c) \<and>
      LogTemp (LoadLive2DModel P c p) =
        LogTemp c @ [(Log, ''Live2D model created from data (Placeholder)'')]"
    if "FileExists P p" and "LoadFileToArray P p = Some bytes" for bytes
    using that by (simp add: LoadLive2DModel_readable)
  have bad: "Live2DModel (LoadLive2DModel P c p) = Live2DModel c \<and>
      (\<exists>msg. LogTemp (LoadLive2DModel P c p) = LogTemp c @ [(Error, msg)])"
    if "\<not> FileExists P p \<or> LoadFileToArray P p = None"
  proof (cases "FileExists P p")
    case True
    with that show ?thesis by (simp add: LoadLive2DModel_unreadable)
  next
    case False
    then show ?thesis by (simp add: LoadLive2DModel_missing)
  qed
  show ?thesis
  proof (cases "\<not> FileExists P p \<or> LoadFileToArray P p = None")
    case True
    with bad show ?thesis by auto
  next
    case False
    then obtain b where "FileExists P p" and "LoadFileToArray P p = Some b" by auto
    with ok [of b] False show ?thesis by auto
  qed
qed

theorem load_checks_no_header_witness:
  "Live2DModel
     (LoadLive2DModel (single_file ''model.moc3'' [0, 0, 0, 0]) ULive2DCubismAvatarComponent
        ''model.moc3'') = Some 0 \<and>
   Live2DModel (LoadLive2DModel no_files ULive2DCubismAvatarComponent ''model.moc3'') = None \<and>
   (\<exists>msg. LogTemp (LoadLive2DModel no_files ULive2DCubismAvatarComponent ''model.moc3'')
            = [(Error, msg)])"
  using load_checks_no_header
          [of "single_file ''model.moc3'' [0, 0, 0, 0]" "''model.moc3''" "[0, 0, 0, 0]"
              ULive2DCubismAvatarComponent]
        load_checks_no_header
          [of no_files "''model.moc3''" "[]" ULive2DCubismAvatarComponent]
  by (simp add: ULive2DCubismAvatarComponent_def)

text \<open>
  C4. \<^verbatim>\<open>LoadLive2DModel\<close> is all or nothing. When the file exists and can be read, the
  model reference is set to a newly made object and no other member changes. On either
  failure (the file is missing, or it cannot be read) nothing is installed: the model
  reference held before, the other members and the object counter are exactly as they
  were, and the only effect is one error line in the log.
\<close>

theorem LoadLive2DModel_all_or_nothing:
  "(FileExists P p \<and> LoadFileToArray P p \<noteq> None \<longrightarrow>
      LoadLive2DModel P c p =
        c\<lparr>LogTemp := LogTemp c @ [(Log, ''Live2D model created from data (Placeholder)'')],
          NextObject := Suc (NextObject c),
          Live2DModel := Some (NextObject c)\<rparr>) \<and>
   (\<not> (FileExists P p \<and> LoadFileToArray P p \<noteq> None) \<longrightarrow>
      Live2DModel (LoadLive2DModel P c p) = Live2DModel c \<and>
      (\<exists>msg. LoadLive2DModel P c p = c\<lparr>LogTemp := LogTemp c @ [(Error, msg)]\<rparr>))"
proof -
  have fail: "Live2DModel (LoadLive2DModel P c p) = Live2DModel c \<and>
      (\<exists>msg. LoadLive2DModel P c p = c\<lparr>LogTemp := LogTemp c @ [(Error, msg)]\<rparr>)"
    if eq: "LoadLive2DModel P c p = c\<lparr>LogTemp := LogTemp c @ [(Error, m)]\<rparr>" for m
  proof
    show "Live2DModel (LoadLive2DModel P c p) = Live2DModel c"
      by (simp add: eq)
    show "\<exists>msg. LoadLive2DModel P c p = c\<lparr>LogTemp := LogTemp c @ [(Error, msg)]\<rparr>"
      using eq by (rule exI)
  qed
  show ?thesis
  proof (cases "FileExists P p")
    case False
    then have "LoadLive2DModel P c p =
        c\<lparr>LogTemp := LogTemp c @ [(Error, ''Model file not found: '' @ p)]\<rparr>"
      by (rule LoadLive2DModel_missing)
    from fail [OF this] False show ?thesis by blast
  next
    case exists: True
    show ?thesis
    proof (cases "LoadFileToArray P p")
      case None
      with exists have "LoadLive2DModel P c p =
          c\<lparr>LogTemp := LogTemp c @ [(Error, ''Failed to load model file: '' @ p)]\<rparr>"
        by (rule LoadLive2DModel_unreadable)
      from fail [OF this] None show ?thesis by simp
    next
      case (Some bytes)
      with exists show ?thesis by (simp add: LoadLive2DModel_readable)
    qed
  qed
qed

theorem LoadLive2DModel_all_or_nothing_witness:
  "LoadLive2DModel (single_file ''model.moc3'' [77, 79, 67, 51])
     (ULive2DCubismAvatarComponent\<lparr>Live2DModel := Some 7, NextObject := 8\<rparr>) ''model.moc3'' =
     \<lparr>bCanEverTick = True, Live2DModel = Some 8, RenderTarget = None, DynamicMaterial = None,
      LogTemp = [(Log, ''Live2D model created from data (Placeholder)'')], NextObject = 9\<rparr> \<and>
   Live2DModel
     (LoadLive2DModel (unreadable_file ''model.moc3'')
        (ULive2DCubismAvatarComponent\<lparr>Live2DModel := Some 7, NextObject := 8\<rparr>)
        ''model.moc3'') = Some 7 \<and>
   Live2DModel
     (LoadLive2DModel no_files
        (ULive2DCubismAvatarComponent\<lparr>Live2DModel := Some 7, NextObject := 8\<rparr>)
        ''model.moc3'') = Some 7"
  using LoadLive2DModel_all_or_nothing
          [of "single_file ''model.moc3'' [77, 79, 67, 51]" "''model.moc3''"
              "ULive2DCubismAvatarComponent\<lparr>Live2DModel := Some 7, NextObject := 8\<rparr>"]
        LoadLive2DModel_all_or_nothing
          [of "unreadable_file ''model.moc3''" "''model.moc3''"
              "ULive2DCubismAvatarComponent\<lparr>Live2DModel := Some 7, NextObject := 8\<rparr>"]
        LoadLive2DModel_all_or_nothing
          [of no_files "''model.moc3''"
              "ULive2DCubismAvatarComponent\<lparr>Live2DModel := Some 7, NextObject := 8\<rparr>"]
  by (simp add: ULive2DCubismAvatarComponent_def)

text \<open>
  C6, as the specification states it: a tick while no model is loaded reports a warning.
  The component reports nothing: after a tick on a newly constructed component, which
  has no model, the log is still empty.
\<close>

theorem tick_unloaded_no_warning:
  "Live2DModel ULive2DCubismAvatarComponent = None \<and>
   LogTemp (TickComponent ULive2DCubismAvatarComponent (1 / 60) LEVELTICK_All None) = [] \<and>
   \<not> (\<exists>msg. (Warning, msg) \<in>
          set (LogTemp (TickComponent ULive2DCubismAvatarComponent (1 / 60) LEVELTICK_All None)))"
  by (simp add: TickComponent_def ULive2DCubismAvatarComponent_def)

text \<open>
  C6, amended: \<^verbatim>\<open>TickComponent\<close> is a no-op in every state, with or without a model: it
  changes no member, writes no line to the log (so no warning), and cannot fail. It
  performs no evaluation in any state, a loaded one included.
\<close>

theorem TickComponent_noop:
  "TickComponent c dt tt tf = c \<and>
   LogTemp (TickComponent c dt tt tf) = LogTemp c \<and>
   Live2DModel (TickComponent c dt tt tf) = Live2DModel c"
  by (simp add: TickComponent_def)

text \<open>
  C7, as the specification states it: a model whose deformer graph has a cycle or a dangling
  reference fails to load and no model is constructed. The component never reads the bytes
  of the file: there is no file content at all for which a load of a readable file leaves
  the component without a model, and no two contents that load tells apart.
\<close>

theorem no_content_fails_load:
  "\<not> (\<exists>bytes.
         Live2DModel
           (LoadLive2DModel (single_file ''cyclic.moc3'' bytes) ULive2DCubismAvatarComponent
              ''cyclic.moc3'') = None) \<and>
   \<not> (\<exists>bytes bytes'.
         LoadLive2DModel (single_file ''cyclic.moc3'' bytes) ULive2DCubismAvatarComponent
           ''cyclic.moc3'' \<noteq>
         LoadLive2DModel (single_file ''cyclic.moc3'' bytes') ULive2DCubismAvatarComponent
           ''cyclic.moc3'')"
  by (simp add: LoadLive2DModel_readable)

text \<open>
  C7, amended: load validates nothing. Its result does not depend on the contents of the
  file: any two files that exist and can be read, whatever graph their bytes encode, lead
  to the same state, in which a placeholder model object is installed. That object carries
  no parameters, deformers or drawables, so load establishes no reference integrity.
\<close>

theorem load_independent_of_content:
  "FileExists P p \<Longrightarrow> LoadFileToArray P p = Some bytes \<Longrightarrow>
   FileExists P' p \<Longrightarrow> LoadFileToArray P' p = Some bytes' \<Longrightarrow>
   LoadLive2DModel P c p = LoadLive2DModel P' c p \<and>
   Live2DModel (LoadLive2DModel P c p) = Some (NextObject c)"
  by (simp add: LoadLive2DModel_readable)

theorem load_independent_of_content_witness:
  "LoadLive2DModel (single_file ''model.moc3'' [77, 79, 67, 51]) ULive2DCubismAvatarComponent
     ''model.moc3'' =
   LoadLive2DModel (single_file ''model.moc3'' [0, 1, 2]) ULive2DCubismAvatarComponent
     ''model.moc3'' \<and>
   Live2DModel
     (LoadLive2DModel (single_file ''model.moc3'' [77, 79, 67, 51])
        ULive2DCubismAvatarComponent ''model.moc3'') = Some 0"
proof -
  have a: "FileExists (single_file ''model.moc3'' [77, 79, 67, 51]) ''model.moc3''"
    and b: "LoadFileToArray (single_file ''model.moc3'' [77, 79, 67, 51]) ''model.moc3''
              = Some [77, 79, 67, 51]"
    and a': "FileExists (single_file ''model.moc3'' [0, 1, 2]) ''model.moc3''"
    and b': "LoadFileToArray (single_file ''model.moc3'' [0, 1, 2]) ''model.moc3''
              = Some [0, 1, 2]"
    by simp_all
  from load_independent_of_content [OF a b a' b', of ULive2DCubismAvatarComponent]
  show ?thesis by (simp add: ULive2DCubismAvatarComponent_def LoadLive2DModel_readable)
qed

text \<open>
  C9. For every parameter name, \<^verbatim>\<open>GetParameterValue\<close> returns exactly 0.5 whenever
  \<^verbatim>\<open>Live2DModel\<close> is not null and exactly 0.0 whenever it is null; the name queried and
  any earlier run of \<^verbatim>\<open>SetParameterValue\<close> calls make no difference, and after a load
  that reaches line 49 the value is 0.5.
\<close>

theorem GetParameterValue_placeholder:
  "(Live2DModel c \<noteq> None \<longrightarrow> GetParameterValue c n = 0.5) \<and>
   (Live2DModel c = None \<longrightarrow> GetParameterValue c n = 0.0) \<and>
   GetParameterValue (SetParameterValues c calls) n = GetParameterValue c n \<and>
   (FileExists P p \<and> LoadFileToArray P p \<noteq> None \<longrightarrow>
      GetParameterValue (LoadLive2DModel P c p) n = 0.5)"
proof -
  have get: "GetParameterValue c n = (if Live2DModel c \<noteq> None then 0.5 else 0.0)"
    by (simp add: GetParameterValue_def)
  have calls: "GetParameterValue (SetParameterValues c calls) n = GetParameterValue c n"
    by (simp add: SetParameterValues_id)
  have load: "GetParameterValue (LoadLive2DModel P c p) n = 0.5"
    if "FileExists P p" and "LoadFileToArray P p \<noteq> None"
  proof -
    from that(2) obtain bytes where "LoadFileToArray P p = Some bytes" by blast
    with that(1) show ?thesis
      by (simp add: LoadLive2DModel_readable GetParameterValue_def)
  qed
  from get calls load show ?thesis by simp
qed

theorem GetParameterValue_placeholder_witness:
  "GetParameterValue ULive2DCubismAvatarComponent ''angleX'' = 0.0 \<and>
   GetParameterValue
     (LoadLive2DModel (single_file ''model.moc3'' [77, 79, 67, 51])
        ULive2DCubismAvatarComponent ''model.moc3'') ''angleX'' = 0.5 \<and>
   GetParameterValue
     (SetParameterValues ULive2DCubismAvatarComponent [(''angleX'', 45), (''angleY'', -7)])
     ''angleX'' = 0.0"
  using GetParameterValue_placeholder
          [of ULive2DCubismAvatarComponent "''angleX''"
              "[(''angleX'', 45), (''angleY'', -7)]"
              "single_file ''model.moc3'' [77, 79, 67, 51]" "''model.moc3''"]
  by (simp add: ULive2DCubismAvatarComponent_def)

text \<open>
  C10. \<^verbatim>\<open>SetParameterValue\<close> leaves the whole state unchanged, for every parameter name
  and value and whether or not a model is loaded: no member of the component is modified,
  nothing is logged, and every later \<^verbatim>\<open>GetParameterValue\<close> returns what it returned before
  the call.
\<close>

theorem SetParameterValue_frame:
  "SetParameterValue c n v = c \<and>
   GetParameterValue (SetParameterValue c n v) m = GetParameterValue c m"
  by (simp add: SetParameterValue_def)

end
